theory Spec2Isabelle
  imports Main "HOL-Library.AList"
begin

section \<open>JavaScript values\<close>

text \<open>
  The values that flow through \<^verbatim>\<open>simple-dialog.tsx\<close>: click events, the results of
  button handlers, the entries of the message list and the values of configuration
  properties. An object carries its identity (an address) and its own enumerable
  properties in insertion order; the components never mutate an object, so the properties
  travel with the value. Numbers are the integral ones plus NaN.
\<close>

datatype jsval =
    JUndefined
  | JNull
  | JBool bool
  | JNum int
  | JNaN
  | JStr string
  | JObj nat "(string \<times> jsval) list"

type_synonym props = "(string \<times> jsval) list"

text \<open>ToBoolean: what \<^verbatim>\<open>if (x)\<close>, \<^verbatim>\<open>x && y\<close>, \<^verbatim>\<open>x || y\<close> and \<^verbatim>\<open>!x\<close> test.\<close>

fun truthy :: "jsval \<Rightarrow> bool" where
  "truthy JUndefined = False"
| "truthy JNull = False"
| "truthy (JBool b) = b"
| "truthy (JNum n) = (n \<noteq> 0)"
| "truthy JNaN = False"
| "truthy (JStr s) = (s \<noteq> [])"
| "truthy (JObj a ps) = True"

text \<open>
  Strict equality \<^verbatim>\<open>x === y\<close>: objects are equal when they are the same object,
  NaN is equal to nothing, every other value is compared by value.
\<close>

fun strict_eq :: "jsval \<Rightarrow> jsval \<Rightarrow> bool" where
  "strict_eq (JObj a ps) y = (case y of JObj b qs \<Rightarrow> a = b | _ \<Rightarrow> False)"
| "strict_eq JNaN y = False"
| "strict_eq x y = (x = y)"

text \<open>
  Property read \<^verbatim>\<open>o.k\<close> on a value that is not null or undefined: the own property, or
  undefined when there is none (the primitives have none of the names read here).
\<close>

fun get_prop :: "jsval \<Rightarrow> string \<Rightarrow> jsval" where
  "get_prop (JObj a ps) k = (case map_of ps k of Some v \<Rightarrow> v | None \<Rightarrow> JUndefined)"
| "get_prop x k = JUndefined"

text \<open>
  An optional property of a string type (\<^verbatim>\<open>title?: string\<close>): \<open>None\<close> is undefined.
  \<open>str_truthy\<close> is its truth value and \<open>str_or x d\<close> is \<^verbatim>\<open>x || d\<close>.
\<close>

definition str_truthy :: "string option \<Rightarrow> bool" where
  "str_truthy x = (case x of None \<Rightarrow> False | Some s \<Rightarrow> s \<noteq> [])"

definition str_or :: "string option \<Rightarrow> string \<Rightarrow> string" where
  "str_or x d = (if str_truthy x then (case x of Some s \<Rightarrow> s | None \<Rightarrow> d) else d)"

definition str_val :: "string option \<Rightarrow> jsval" where
  "str_val x = (case x of None \<Rightarrow> JUndefined | Some s \<Rightarrow> JStr s)"

text \<open>
  An optional property of an object type (\<^verbatim>\<open>modalProps?: IModalProps\<close>): \<open>None\<close> is
  undefined, \<open>Some ps\<close> an object with the properties \<open>ps\<close>, the first binding of a name
  being the property. \<open>spread src acc\<close> is \<^verbatim>\<open>{ ...acc, ...src }\<close>: every own property
  of \<open>src\<close> is assigned in turn, replacing the value of a name that is there and adding
  the others at the end; spreading undefined assigns nothing. \<open>opt_get src k\<close> is
  \<^verbatim>\<open>src?.k\<close>.
\<close>

definition own_props :: "props option \<Rightarrow> props" where
  "own_props src = (case src of None \<Rightarrow> [] | Some ps \<Rightarrow> AList.clearjunk ps)"

definition spread :: "props option \<Rightarrow> props \<Rightarrow> props" where
  "spread src acc = fold (\<lambda>(k, v). AList.update k v) (own_props src) acc"

definition opt_get :: "props option \<Rightarrow> string \<Rightarrow> jsval" where
  "opt_get src k = (case src of None \<Rightarrow> JUndefined
                    | Some ps \<Rightarrow> (case map_of ps k of Some v \<Rightarrow> v | None \<Rightarrow> JUndefined))"

definition has_own :: "props option \<Rightarrow> string \<Rightarrow> bool" where
  "has_own src k = (k \<in> set (map fst (own_props src)))"

section \<open>The caller's callbacks\<close>

text \<open>
  A function of the caller's takes its arguments, may change the caller's own state
  \<open>'u\<close> and returns a value. The world records every invocation of such a function with
  the arguments it was given, and the warnings written to the console.
\<close>

type_synonym 'u callback = "jsval list \<Rightarrow> 'u \<Rightarrow> jsval \<times> 'u"

record 'u world =
  calls :: "jsval list list"
  console :: "string list"
  user :: 'u

definition invoke :: "'u callback \<Rightarrow> jsval list \<Rightarrow> 'u world \<Rightarrow> jsval \<times> 'u world" where
  "invoke f args w =
     (let (r, u') = f args (user w)
      in (r, w\<lparr>calls := calls w @ [args], user := u'\<rparr>))"

definition console_warn :: "string \<Rightarrow> 'u world \<Rightarrow> 'u world" where
  "console_warn msg w = w\<lparr>console := console w @ [msg]\<rparr>"

section \<open>SimpleDialog\<close>

datatype SimpleDialogButtonType = Primary | Default

text \<open>
  The value of \<^verbatim>\<open>onClick\<close> in a button descriptor: a function, which runs on the state
  \<open>'s\<close> of whoever supplied it, or any other value (undefined when the property is
  absent).
\<close>

datatype 's jsfield =
    Callable "jsval list \<Rightarrow> 's \<Rightarrow> jsval \<times> 's"
  | Value jsval

fun field_truthy :: "'s jsfield \<Rightarrow> bool" where
  "field_truthy (Callable f) = True"
| "field_truthy (Value v) = truthy v"

record 's ISimpleDialogButtonProps =
  btype :: SimpleDialogButtonType
  btext :: string
  styles :: jsval
  onClick :: "'s jsfield"
  href :: "string option"
  target :: "string option"

text \<open>
  What a dialog shows as its message: the caller's string or element, or what
  \<^verbatim>\<open>PromptDialog.renderMessage\<close> builds around it.
\<close>

datatype node =
    Content jsval
  | TextField props
  | Fragment "node list"
  | Label node

record IBaseDialogProps =
  title :: "string option"
  message :: node
  dialogProps :: "props option"
  dialogContentProps :: "props option"
  modalProps :: "props option"

record 's ISimpleDialogProps = IBaseDialogProps +
  buttons :: "'s ISimpleDialogButtonProps list"

record ISimpleDialogState =
  messages :: "jsval list"

definition SimpleDialog_init :: ISimpleDialogState where
  "SimpleDialog_init = \<lparr>messages = []\<rparr>"

text \<open>
  Calling a value: a function runs; calling anything else throws a TypeError.
\<close>

datatype error = TypeError

fun is_function :: "'s jsfield \<Rightarrow> bool" where
  "is_function (Callable f) = True"
| "is_function (Value v) = False"

fun call_field :: "'s jsfield \<Rightarrow> jsval list \<Rightarrow> 's \<Rightarrow> error + (jsval \<times> 's)" where
  "call_field (Callable f) args s = Inr (f args s)"
| "call_field (Value v) args s = Inl TypeError"

text \<open>
  \<^verbatim>\<open>_onButtonClicked\<close>: \<^verbatim>\<open>typeof button.onClick === "function" && button.onClick(event)\<close>
  is false when \<^verbatim>\<open>onClick\<close> is not a function, and the result of the call otherwise; with
  a truthy result the handler calls \<^verbatim>\<open>setState\<close> with the object
  \<^verbatim>\<open>{ messages: [...this.state.messages, buttonResult] }\<close>, built from \<^verbatim>\<open>this.state\<close> as the
  handler finds it. \<open>onButtonClicked_update\<close> returns that object, or \<open>None\<close> when the
  handler does not call \<^verbatim>\<open>setState\<close>.
\<close>

definition onButtonClicked_update ::
  "'s ISimpleDialogButtonProps \<Rightarrow> jsval \<Rightarrow> ISimpleDialogState \<times> 's
     \<Rightarrow> error + (ISimpleDialogState option \<times> 's)" where
  "onButtonClicked_update button event = (\<lambda>(st, s).
     if is_function (onClick button)
     then (case call_field (onClick button) [event] s of
             Inl err \<Rightarrow> Inl err
           | Inr (buttonResult, s') \<Rightarrow>
               if truthy buttonResult
               then Inr (Some (st\<lparr>messages := messages st @ [buttonResult]\<rparr>), s')
               else Inr (None, s'))
     else Inr (None, s))"

text \<open>
  \<^verbatim>\<open>setState\<close> with an object does not assign \<^verbatim>\<open>this.state\<close>: React queues the object
  and, when it flushes the queue, assigns the fields of every queued object in turn.
  Whatever runs before the flush still reads the old \<^verbatim>\<open>this.state\<close>.
\<close>

definition flush :: "ISimpleDialogState option list \<Rightarrow> ISimpleDialogState \<Rightarrow> ISimpleDialogState" where
  "flush queue st =
     fold (\<lambda>upd st'. case upd of None \<Rightarrow> st' | Some u \<Rightarrow> st'\<lparr>messages := messages u\<rparr>) queue st"

text \<open>
  An activation in an event of its own: React flushes the update before anything else
  runs, as it does at the end of each event of the user's.
\<close>

definition onButtonClicked ::
  "'s ISimpleDialogButtonProps \<Rightarrow> jsval \<Rightarrow> ISimpleDialogState \<times> 's
     \<Rightarrow> error + (ISimpleDialogState \<times> 's)" where
  "onButtonClicked button event = (\<lambda>(st, s).
     case onButtonClicked_update button event (st, s) of
       Inl err \<Rightarrow> Inl err
     | Inr (upd, s') \<Rightarrow> Inr (flush [upd] st, s'))"

text \<open>
  \<^verbatim>\<open>_onMessageDismissed\<close>, in an event of its own: the state once React has flushed
  \<^verbatim>\<open>{ messages: this.state.messages.filter(m => m !== message) }\<close>.
\<close>

definition onMessageDismissed :: "jsval \<Rightarrow> ISimpleDialogState \<Rightarrow> ISimpleDialogState" where
  "onMessageDismissed msg st = st\<lparr>messages := filter (\<lambda>m. \<not> strict_eq m msg) (messages st)\<rparr>"

subsection \<open>Rendering\<close>

text \<open>
  Modelled from the spec: the constant \<^verbatim>\<open>DialogType.normal\<close> of the dialog library,
  which is not part of this repository (the spec's fixed dialog type). It is the first
  member of the library's enum; nothing below depends on its value.
\<close>

definition DialogType_normal :: jsval where
  "DialogType_normal = JNum 0"

text \<open>
  The attributes of the \<^verbatim>\<open>Dialog\<close> element, in the order the source writes them. The
  object literals get the addresses \<open>a\<close>, \<open>a + 1\<close>, \<open>a + 2\<close> and \<open>a + 3\<close>, where \<open>a\<close> is the
  next free address when the render runs. The element's children are what is written
  between its tags (the body, the message bars and the footer of \<open>Rendered\<close> below), so
  a \<^verbatim>\<open>children\<close> property of the caller's \<^verbatim>\<open>dialogProps\<close> does not survive.
\<close>

definition content_props :: "string option \<Rightarrow> props option \<Rightarrow> props" where
  "content_props t dcp =
     AList.update ''title'' (JStr (str_or t ''''))
       (spread dcp [(''type'', DialogType_normal), (''showCloseButton'', JBool False)])"

definition modal_defaults :: "nat \<Rightarrow> props" where
  "modal_defaults a =
     [(''isBlocking'', JBool True),
      (''styles'', JObj a [(''main'', JObj (a + 1) [(''minWidth'', JNum 450), (''maxWidth'', JNum 450)])])]"

definition modal_props :: "nat \<Rightarrow> props option \<Rightarrow> props" where
  "modal_props a mp = spread mp (modal_defaults a)"

definition dialog_attrs :: "nat \<Rightarrow> 'a IBaseDialogProps_scheme \<Rightarrow> props" where
  "dialog_attrs a p =
     AList.update ''modalProps'' (JObj (a + 1) (modal_props (a + 2) (modalProps p)))
       (AList.update ''dialogContentProps'' (JObj a (content_props (title p) (dialogContentProps p)))
          (AList.update ''hidden'' (JBool False)
             (AList.delete ''children'' (spread (dialogProps p) []))))"

text \<open>
  One \<^verbatim>\<open>MessageBar\<close> for every message \<open>m\<close>, showing \<^verbatim>\<open>m.styles\<close>, \<^verbatim>\<open>m.type\<close> and
  \<^verbatim>\<open>m.text\<close>; its \<^verbatim>\<open>onDismiss\<close> calls \<^verbatim>\<open>_onMessageDismissed(m)\<close> for the \<open>m\<close> it was
  rendered from.
\<close>

record MessageBar =
  bar_styles :: jsval
  messageBarType :: jsval
  bar_text :: jsval
  onDismiss :: "ISimpleDialogState \<Rightarrow> ISimpleDialogState"

definition render_bar :: "jsval \<Rightarrow> MessageBar" where
  "render_bar m = \<lparr>bar_styles = get_prop m ''styles'', messageBarType = get_prop m ''type'',
                   bar_text = get_prop m ''text'', onDismiss = onMessageDismissed m\<rparr>"

text \<open>
  A rendered button: a \<^verbatim>\<open>PrimaryButton\<close> or a \<^verbatim>\<open>DefaultButton\<close> with the descriptor's
  text, href, target and styles, and a click handler only when \<^verbatim>\<open>b.onClick\<close> is truthy.
  A descriptor whose \<^verbatim>\<open>onClick\<close> and \<^verbatim>\<open>href\<close> are both falsy renders nothing.
\<close>

record 's Button =
  element :: SimpleDialogButtonType
  button_text :: string
  button_href :: "string option"
  button_target :: "string option"
  button_styles :: jsval
  button_onClick ::
    "(jsval \<Rightarrow> ISimpleDialogState \<times> 's \<Rightarrow> error + (ISimpleDialogState \<times> 's)) option"

definition render_button :: "'s ISimpleDialogButtonProps \<Rightarrow> 's Button option" where
  "render_button b =
     (if field_truthy (onClick b) \<or> str_truthy (href b)
      then Some \<lparr>element = btype b, button_text = btext b, button_href = href b,
                 button_target = target b, button_styles = styles b,
                 button_onClick = (if field_truthy (onClick b) then Some (onButtonClicked b) else None)\<rparr>
      else None)"

record 's Rendered =
  dialog :: props
  body :: node
  bars :: "MessageBar list"
  footer :: "'s Button option list"

definition SimpleDialog_render ::
  "nat \<Rightarrow> 's ISimpleDialogProps \<Rightarrow> ISimpleDialogState \<Rightarrow> 's Rendered" where
  "SimpleDialog_render a p st =
     \<lparr>dialog = dialog_attrs a p,
      body = message p,
      bars = map render_bar (messages st),
      footer = map render_button (buttons p)\<rparr>"

text \<open>
  The user's actions on what was rendered: a click, with its event, on the \<open>i\<close>-th
  entry of the footer, and the dismissal of the \<open>i\<close>-th message bar. Where nothing was
  rendered there is nothing to act on, and a button without a click handler only
  navigates.
\<close>

definition click ::
  "'s Rendered \<Rightarrow> nat \<Rightarrow> jsval \<Rightarrow> ISimpleDialogState \<times> 's
     \<Rightarrow> error + (ISimpleDialogState \<times> 's)" where
  "click r i event x =
     (if i < length (footer r)
      then (case footer r ! i of
              None \<Rightarrow> Inr x
            | Some b \<Rightarrow> (case button_onClick b of None \<Rightarrow> Inr x | Some h \<Rightarrow> h event x))
      else Inr x)"

definition dismiss :: "'s Rendered \<Rightarrow> nat \<Rightarrow> ISimpleDialogState \<Rightarrow> ISimpleDialogState" where
  "dismiss r i st = (if i < length (bars r) then onDismiss (bars r ! i) st else st)"

section \<open>AlertDialog\<close>

record 'u IAlertDialogProps = IBaseDialogProps +
  buttonText :: "string option"
  onClose :: "'u callback"

text \<open>
  \<^verbatim>\<open>AlertDialog.render\<close> hands \<^verbatim>\<open>title\<close>, \<^verbatim>\<open>message\<close> and one button to a SimpleDialog;
  the button's \<^verbatim>\<open>onClick\<close> is the caller's \<^verbatim>\<open>onClose\<close> itself. The SimpleDialog is
  given no other property.
\<close>

definition AlertDialog_render ::
  "nat \<Rightarrow> 'u IAlertDialogProps \<Rightarrow> ISimpleDialogState \<Rightarrow> 'u world Rendered" where
  "AlertDialog_render a p st =
     SimpleDialog_render a
       \<lparr>title = title p, message = message p,
        dialogProps = None, dialogContentProps = None, modalProps = None,
        buttons =
          [\<lparr>btype = Primary, btext = str_or (buttonText p) ''Okay'', styles = JUndefined,
            onClick = Callable (invoke (IAlertDialogProps.onClose p)), href = None, target = None\<rparr>]\<rparr>
       st"

section \<open>ConfirmDialog\<close>

record 'u IConfirmDialogProps = IBaseDialogProps +
  confirmButtonText :: "string option"
  rejectButtonText :: "string option"
  onClose :: "'u callback"

text \<open>\<^verbatim>\<open>onConfirm\<close> and \<^verbatim>\<open>onReject\<close> ignore their arguments and return nothing.\<close>

definition ConfirmDialog_onConfirm ::
  "'u IConfirmDialogProps \<Rightarrow> jsval list \<Rightarrow> 'u world \<Rightarrow> jsval \<times> 'u world" where
  "ConfirmDialog_onConfirm p args w =
     (JUndefined, snd (invoke (IConfirmDialogProps.onClose p) [JBool True] w))"

definition ConfirmDialog_onReject ::
  "'u IConfirmDialogProps \<Rightarrow> jsval list \<Rightarrow> 'u world \<Rightarrow> jsval \<times> 'u world" where
  "ConfirmDialog_onReject p args w =
     (JUndefined, snd (invoke (IConfirmDialogProps.onClose p) [JBool False] w))"

definition ConfirmDialog_render ::
  "nat \<Rightarrow> 'u IConfirmDialogProps \<Rightarrow> ISimpleDialogState \<Rightarrow> 'u world Rendered" where
  "ConfirmDialog_render a p st =
     SimpleDialog_render a
       \<lparr>title = title p, message = message p,
        dialogProps = None, dialogContentProps = None, modalProps = None,
        buttons =
          [\<lparr>btype = Default, btext = str_or (IConfirmDialogProps.rejectButtonText p) ''No'',
            styles = JUndefined, onClick = Callable (ConfirmDialog_onReject p),
            href = None, target = None\<rparr>,
           \<lparr>btype = Primary, btext = str_or (IConfirmDialogProps.confirmButtonText p) ''Yes'',
            styles = JUndefined, onClick = Callable (ConfirmDialog_onConfirm p),
            href = None, target = None\<rparr>]\<rparr>
       st"

section \<open>PromptDialog\<close>

record 'u IPromptDialogProps = IBaseDialogProps +
  confirmButtonText :: "string option"
  rejectButtonText :: "string option"
  textFieldProps :: "props option"
  messageAsLabel :: "bool option"
  onClose :: "'u callback"

text \<open>The instance: its field \<^verbatim>\<open>_value\<close>, a string or undefined.\<close>

record PromptDialog =
  pvalue :: "string option"

definition label_warning :: string where
  "label_warning =
     ''PromptDialog: messageAsLabel will be ignored because the textFieldProps.label has a value.''"

text \<open>
  The constructor: \<^verbatim>\<open>_value\<close> starts as the empty string, and the warning is written
  when \<^verbatim>\<open>messageAsLabel && textFieldProps?.label\<close> is truthy.
\<close>

definition PromptDialog_constructor ::
  "'u IPromptDialogProps \<Rightarrow> 'u world \<Rightarrow> PromptDialog \<times> 'u world" where
  "PromptDialog_constructor p w =
     (\<lparr>pvalue = Some []\<rparr>,
      if messageAsLabel p = Some True \<and> truthy (opt_get (textFieldProps p) ''label'')
      then console_warn label_warning w else w)"

definition PromptDialog_onConfirm ::
  "'u IPromptDialogProps \<Rightarrow> jsval list \<Rightarrow> PromptDialog \<times> 'u world
     \<Rightarrow> jsval \<times> (PromptDialog \<times> 'u world)" where
  "PromptDialog_onConfirm p args = (\<lambda>(this, w).
     (JUndefined, (this, snd (invoke (IPromptDialogProps.onClose p) [str_val (pvalue this)] w))))"

definition PromptDialog_onReject ::
  "'u IPromptDialogProps \<Rightarrow> jsval list \<Rightarrow> PromptDialog \<times> 'u world
     \<Rightarrow> jsval \<times> (PromptDialog \<times> 'u world)" where
  "PromptDialog_onReject p args = (\<lambda>(this, w).
     (JUndefined, (this, snd (invoke (IPromptDialogProps.onClose p) [JNull] w))))"

definition onValueChanged :: "string option \<Rightarrow> PromptDialog \<Rightarrow> PromptDialog" where
  "onValueChanged newValue this = this\<lparr>pvalue := newValue\<rparr>"

text \<open>
  \<^verbatim>\<open>renderMessage\<close>: the message and a text field with the caller's \<^verbatim>\<open>textFieldProps\<close>,
  whose \<^verbatim>\<open>onChange\<close> is always \<^verbatim>\<open>onValueChanged\<close> (so the node keeps the other
  attributes); inside a \<^verbatim>\<open>Label\<close> when \<^verbatim>\<open>messageAsLabel && !textFieldProps?.label\<close>.
\<close>

definition textField_attrs :: "'u IPromptDialogProps \<Rightarrow> props" where
  "textField_attrs p = AList.delete ''onChange'' (spread (textFieldProps p) [])"

definition renderMessage :: "'u IPromptDialogProps \<Rightarrow> node" where
  "renderMessage p =
     (let content = Fragment [message p, TextField (textField_attrs p)]
      in if messageAsLabel p = Some True \<and> \<not> truthy (opt_get (textFieldProps p) ''label'')
         then Label content else content)"

definition PromptDialog_render ::
  "nat \<Rightarrow> 'u IPromptDialogProps \<Rightarrow> ISimpleDialogState \<Rightarrow> (PromptDialog \<times> 'u world) Rendered" where
  "PromptDialog_render a p st =
     SimpleDialog_render a
       \<lparr>title = title p, message = renderMessage p,
        dialogProps = None, dialogContentProps = None, modalProps = None,
        buttons =
          [\<lparr>btype = Default, btext = str_or (IPromptDialogProps.rejectButtonText p) ''No'',
            styles = JUndefined, onClick = Callable (PromptDialog_onReject p),
            href = None, target = None\<rparr>,
           \<lparr>btype = Primary, btext = str_or (IPromptDialogProps.confirmButtonText p) ''Yes'',
            styles = JUndefined, onClick = Callable (PromptDialog_onConfirm p),
            href = None, target = None\<rparr>]\<rparr>
       st"

section \<open>Sequences of events\<close>

text \<open>
  A run of button activations on one SimpleDialog, each in an event of its own, so that
  React flushes the update of one before the next runs; it stops at the first error as an
  exception would.
\<close>

fun clicks ::
  "('s ISimpleDialogButtonProps \<times> jsval) list \<Rightarrow> ISimpleDialogState \<times> 's
     \<Rightarrow> error + (ISimpleDialogState \<times> 's)" where
  "clicks [] x = Inr x"
| "clicks ((b, e) # bes) x =
     (case onButtonClicked b e x of Inl err \<Rightarrow> Inl err | Inr x' \<Rightarrow> clicks bes x')"

text \<open>
  Activations that React batches, as it does with clicks dispatched one after the other
  in one task: the handlers run in turn, each on the caller's state its predecessor left,
  but every one of them reads the \<^verbatim>\<open>this.state\<close> of before the batch, and the queued
  objects are flushed together at the end.
\<close>

fun batch_updates ::
  "('s ISimpleDialogButtonProps \<times> jsval) list \<Rightarrow> ISimpleDialogState \<Rightarrow> 's
     \<Rightarrow> error + (ISimpleDialogState option list \<times> 's)" where
  "batch_updates [] st s = Inr ([], s)"
| "batch_updates ((b, e) # bes) st s =
     (case onButtonClicked_update b e (st, s) of
        Inl err \<Rightarrow> Inl err
      | Inr (upd, s') \<Rightarrow>
          (case batch_updates bes st s' of
             Inl err \<Rightarrow> Inl err
           | Inr (upds, s'') \<Rightarrow> Inr (upd # upds, s'')))"

definition batch ::
  "('s ISimpleDialogButtonProps \<times> jsval) list \<Rightarrow> ISimpleDialogState \<times> 's
     \<Rightarrow> error + (ISimpleDialogState \<times> 's)" where
  "batch bes = (\<lambda>(st, s).
     case batch_updates bes st s of
       Inl err \<Rightarrow> Inl err
     | Inr (upds, s') \<Rightarrow> Inr (flush upds st, s'))"

text \<open>
  What the claim about activation speaks of: the values that the callable handlers of a
  run return, in call order, each handler running on the state its predecessors left.
\<close>

fun handler_results ::
  "('s ISimpleDialogButtonProps \<times> jsval) list \<Rightarrow> 's \<Rightarrow> jsval list \<times> 's" where
  "handler_results [] s = ([], s)"
| "handler_results ((b, e) # bes) s =
     (case onClick b of
        Value v \<Rightarrow> handler_results bes s
      | Callable f \<Rightarrow>
          (let (r, s') = f [e] s; (rs, s'') = handler_results bes s' in (r # rs, s'')))"


text \<open>
  \<open>final_config r obj k\<close> reads \<^verbatim>\<open>obj.k\<close> in the attributes of the rendered \<^verbatim>\<open>Dialog\<close>, for
  \<open>obj\<close> one of \<^verbatim>\<open>dialogContentProps\<close> and \<^verbatim>\<open>modalProps\<close>.
\<close>

definition final_config :: "('s, 'z) Rendered_scheme \<Rightarrow> string \<Rightarrow> string \<Rightarrow> jsval" where
  "final_config r obj k = get_prop (opt_get (Some (dialog r)) obj) k"

subsection \<open>The life of a PromptDialog\<close>

text \<open>
  A mounted PromptDialog: its current props, the instance, the state of the SimpleDialog
  it renders and the world. After the constructor it is rendered again whenever the
  parent passes new props; the user changes the text field, clicks a footer button or
  dismisses a message bar. \<open>a\<close> is the address a render allocates at.
\<close>

record 'u Mounted =
  m_props :: "'u IPromptDialogProps"
  m_this :: PromptDialog
  m_dialog :: ISimpleDialogState
  m_world :: "'u world"

datatype 'u event =
    Rerender "'u IPromptDialogProps"
  | Change "string option"
  | Click nat jsval
  | Dismiss nat

definition mount :: "'u IPromptDialogProps \<Rightarrow> 'u world \<Rightarrow> 'u Mounted" where
  "mount p w =
     (let (this, w') = PromptDialog_constructor p w
      in \<lparr>m_props = p, m_this = this, m_dialog = SimpleDialog_init, m_world = w'\<rparr>)"

fun step :: "nat \<Rightarrow> 'u event \<Rightarrow> 'u Mounted \<Rightarrow> error + 'u Mounted" where
  "step a (Rerender p') m = Inr (m\<lparr>m_props := p'\<rparr>)"
| "step a (Change newValue) m = Inr (m\<lparr>m_this := onValueChanged newValue (m_this m)\<rparr>)"
| "step a (Click i e) m =
     (case click (PromptDialog_render a (m_props m) (m_dialog m)) i e
             (m_dialog m, (m_this m, m_world m)) of
        Inl err \<Rightarrow> Inl err
      | Inr (st, (this, w)) \<Rightarrow> Inr (m\<lparr>m_this := this, m_dialog := st, m_world := w\<rparr>))"
| "step a (Dismiss i) m =
     Inr (m\<lparr>m_dialog := dismiss (PromptDialog_render a (m_props m) (m_dialog m)) i (m_dialog m)\<rparr>)"

fun run :: "nat \<Rightarrow> 'u event list \<Rightarrow> 'u Mounted \<Rightarrow> error + 'u Mounted" where
  "run a [] m = Inr m"
| "run a (ev # evs) m = (case step a ev m of Inl err \<Rightarrow> Inl err | Inr m' \<Rightarrow> run a evs m')"

section \<open>Example inputs\<close>

text \<open>
  A click event, a message object, and a dialog whose one button answers every click with
  that same message object.
\<close>

definition click_event :: jsval where
  "click_event = JObj 9 [(''type'', JStr ''click'')]"

definition saved :: jsval where
  "saved = JObj 1 [(''type'', JNum 4), (''text'', JStr ''Saved'')]"

definition save_button :: "unit ISimpleDialogButtonProps" where
  "save_button = \<lparr>btype = Primary, btext = ''Save'', styles = JUndefined,
                   onClick = Callable (\<lambda>args s. (saved, s)), href = None, target = None\<rparr>"

definition save_dialog :: "unit ISimpleDialogProps" where
  "save_dialog = \<lparr>title = Some ''Document'', message = Content (JStr ''Save the document?''),
                   dialogProps = None, dialogContentProps = None, modalProps = None,
                   buttons = [save_button]\<rparr>"

text \<open>A second message object, and a button that answers every click with it.\<close>

definition deleted :: jsval where
  "deleted = JObj 2 [(''type'', JNum 0), (''text'', JStr ''Deleted'')]"

definition delete_button :: "unit ISimpleDialogButtonProps" where
  "delete_button = \<lparr>btype = Default, btext = ''Delete'', styles = JUndefined,
                     onClick = Callable (\<lambda>args s. (deleted, s)), href = None, target = None\<rparr>"

text \<open>
  A world in which nothing has happened yet, an AlertDialog whose \<^verbatim>\<open>onClose\<close> returns the
  message object \<open>saved\<close>, and a PromptDialog with \<^verbatim>\<open>messageAsLabel\<close> whose text field is
  given the empty string as its label.
\<close>

definition quiet :: "unit world" where
  "quiet = \<lparr>calls = [], console = [], user = ()\<rparr>"


definition ask_name :: "unit IPromptDialogProps" where
  "ask_name = \<lparr>title = Some ''Hi!'', message = Content (JStr ''What is your name?''),
                dialogProps = None, dialogContentProps = None, modalProps = None,
                confirmButtonText = None, rejectButtonText = None,
                textFieldProps = Some [(''label'', JStr [])], messageAsLabel = Some True,
                onClose = (\<lambda>args u. (JUndefined, u))\<rparr>"

text \<open>A descriptor whose \<^verbatim>\<open>onClick\<close> is a string, with no \<^verbatim>\<open>href\<close>.\<close>

definition dead_button :: "unit ISimpleDialogButtonProps" where
  "dead_button = \<lparr>btype = Primary, btext = ''Close'', styles = JUndefined,
                   onClick = Value (JStr ''close''), href = None, target = None\<rparr>"

section \<open>Activation and dismissal\<close>

lemma onButtonClicked_cases:
  "onButtonClicked b e (st, s) =
     (case onClick b of
        Value v \<Rightarrow> Inr (st, s)
      | Callable f \<Rightarrow>
          Inr (if truthy (fst (f [e] s)) then st\<lparr>messages := messages st @ [fst (f [e] s)]\<rparr> else st,
               snd (f [e] s)))"
  by (cases "onClick b")
     (simp_all add: onButtonClicked_def onButtonClicked_update_def flush_def split: prod.splits)

lemma click_render:
  "click (SimpleDialog_render a p st) i e x =
     (if i < length (buttons p) \<and> field_truthy (onClick (buttons p ! i))
      then onButtonClicked (buttons p ! i) e x else Inr x)"
  by (simp add: click_def SimpleDialog_render_def render_button_def)

lemma clicks_messages:
  "clicks bes (st, s) =
     Inr (st\<lparr>messages := messages st @ filter truthy (fst (handler_results bes s))\<rparr>,
          snd (handler_results bes s))"
proof (induction bes arbitrary: st s)
  case Nil
  show ?case by simp
next
  case (Cons be bes)
  obtain b e where be: "be = (b, e)" by (cases be)
  show ?case
  proof (cases "onClick b")
    case (Value v)
    then show ?thesis by (simp add: be onButtonClicked_cases Cons.IH)
  next
    case (Callable f)
    then show ?thesis
      by (simp add: be onButtonClicked_cases Cons.IH split: prod.splits)
  qed
qed

text \<open>
  The messages are truthy values, so the property reads of a render never meet null or
  undefined: activation appends truthy values only, and dismissal only removes.
\<close>

lemma onButtonClicked_truthy:
  "list_all truthy (messages st) \<Longrightarrow> onButtonClicked b e (st, s) = Inr (st', s') \<Longrightarrow>
   list_all truthy (messages st')"
  by (cases "onClick b") (auto simp add: onButtonClicked_cases split: if_splits)

lemma onMessageDismissed_truthy:
  "list_all truthy (messages st) \<Longrightarrow> list_all truthy (messages (onMessageDismissed m st))"
  by (simp add: onMessageDismissed_def list_all_iff)

lemma handler_results_replicate:
  "handler_results (replicate n (b\<lparr>onClick := Callable (\<lambda>args s. (m, s))\<rparr>, e)) s = (replicate n m, s)"
  by (induction n) simp_all

text \<open>
  Activations in events of their own. When a button whose click handler is a function
  \<open>f\<close> is activated, \<open>f\<close> is called with the triggering event, and the value it returns
  is appended at the end of the message list if and only if it is truthy. Over a run of
  activations, each flushed before the next, the message list becomes the old list
  followed by the truthy results of the handlers, once each and in call order; nothing is
  dropped as a duplicate and the length has no bound: \<open>n\<close> activations of a handler
  that returns one and the same message object add \<open>n\<close> entries. A click on a rendered
  button is the activation of its descriptor.
\<close>

theorem activation_appends_truthy_results:
  "onButtonClicked (b\<lparr>onClick := Callable f\<rparr>) e (st, s) =
     Inr (if truthy (fst (f [e] s)) then st\<lparr>messages := messages st @ [fst (f [e] s)]\<rparr> else st,
          snd (f [e] s))
   \<and> clicks bes (st, s) =
     Inr (st\<lparr>messages := messages st @ filter truthy (fst (handler_results bes s))\<rparr>,
          snd (handler_results bes s))
   \<and> clicks (replicate n (b\<lparr>onClick := Callable (\<lambda>args s. (JObj i ps, s))\<rparr>, e)) (st, s) =
     Inr (st\<lparr>messages := messages st @ replicate n (JObj i ps)\<rparr>, s)
   \<and> click (SimpleDialog_render a p st) j e x =
     (if j < length (buttons p) \<and> field_truthy (onClick (buttons p ! j))
      then onButtonClicked (buttons p ! j) e x else Inr x)"
  by (simp add: onButtonClicked_cases clicks_messages handler_results_replicate click_render)

lemma flush_Cons:
  "flush (upd # upds) st0 =
     flush upds (case upd of None \<Rightarrow> st0 | Some u \<Rightarrow> st0\<lparr>messages := messages u\<rparr>)"
  by (simp add: flush_def)

lemma flush_Nil: "flush [] st0 = st0"
  by (simp add: flush_def)

lemma batch_updates_flush:
  "\<exists>upds. batch_updates bes st s = Inr (upds, snd (handler_results bes s))
     \<and> (\<forall>st0. flush upds st0 =
           (if filter truthy (fst (handler_results bes s)) = [] then st0
            else st0\<lparr>messages := messages st @ [last (filter truthy (fst (handler_results bes s)))]\<rparr>))"
proof (induction bes arbitrary: s)
  case Nil
  show ?case by (simp add: flush_Nil)
next
  case (Cons be bes)
  obtain b e where be: "be = (b, e)" by (cases be)
  show ?case
  proof (cases "onClick b")
    case (Value v)
    from Cons.IH [of s] obtain upds
      where u: "batch_updates bes st s = Inr (upds, snd (handler_results bes s))"
        and f: "\<And>st0. flush upds st0 =
           (if filter truthy (fst (handler_results bes s)) = [] then st0
            else st0\<lparr>messages := messages st @ [last (filter truthy (fst (handler_results bes s)))]\<rparr>)"
      by blast
    from Value u f show ?thesis
      by (simp add: be onButtonClicked_update_def flush_Cons)
  next
    case (Callable h)
    obtain r s1 where h: "h [e] s = (r, s1)" by (cases "h [e] s")
    from Cons.IH [of s1] obtain upds
      where u: "batch_updates bes st s1 = Inr (upds, snd (handler_results bes s1))"
        and f: "\<And>st0. flush upds st0 =
           (if filter truthy (fst (handler_results bes s1)) = [] then st0
            else st0\<lparr>messages := messages st @ [last (filter truthy (fst (handler_results bes s1)))]\<rparr>)"
      by blast
    from Callable h u f show ?thesis
      by (simp add: be onButtonClicked_update_def flush_Cons split: prod.splits)
  qed
qed

lemma batch_messages:
  "batch bes (st, s) =
     Inr (if filter truthy (fst (handler_results bes s)) = [] then st
          else st\<lparr>messages := messages st @ [last (filter truthy (fst (handler_results bes s)))]\<rparr>,
          snd (handler_results bes s))"
proof -
  from batch_updates_flush [of bes st s] obtain upds
    where u: "batch_updates bes st s = Inr (upds, snd (handler_results bes s))"
      and f: "flush upds st =
           (if filter truthy (fst (handler_results bes s)) = [] then st
            else st\<lparr>messages := messages st @ [last (filter truthy (fst (handler_results bes s)))]\<rparr>)"
    by blast
  show ?thesis by (simp only: batch_def prod.case u sum.case f)
qed

text \<open>
  C4. The handler appends to the \<^verbatim>\<open>this.state.messages\<close> it reads, not to the list that the
  updates already queued will leave. When React batches activations, every activation of
  the batch appends to the list of before the batch and the flush keeps the last of
  these lists, so of the truthy results of a batch only the last is appended. Two clicks
  in one batch, on a button that answers with the message \<open>deleted\<close> and then on one
  that answers with \<open>saved\<close>, leave the one message \<open>saved\<close>, where the handlers
  returned \<open>deleted\<close> and \<open>saved\<close> in call order, and where the same clicks in events of
  their own leave both.
\<close>

theorem batched_activations_overwrite:
  "batch [(delete_button, click_event), (save_button, click_event)] (SimpleDialog_init, ())
     = Inr (\<lparr>messages = [saved]\<rparr>, ())
   \<and> fst (handler_results [(delete_button, click_event), (save_button, click_event)] ())
     = [deleted, saved]
   \<and> clicks [(delete_button, click_event), (save_button, click_event)] (SimpleDialog_init, ())
     = Inr (\<lparr>messages = [deleted, saved]\<rparr>, ())
   \<and> batch bes (st, s) =
     Inr (if filter truthy (fst (handler_results bes s)) = [] then st
          else st\<lparr>messages := messages st @ [last (filter truthy (fst (handler_results bes s)))]\<rparr>,
          snd (handler_results bes s))"
proof -
  have results: "fst (handler_results [(delete_button, click_event), (save_button, click_event)] ())
     = [deleted, saved]"
    by (simp add: delete_button_def save_button_def)
  have batched: "batch [(delete_button, click_event), (save_button, click_event)] (SimpleDialog_init, ())
     = Inr (\<lparr>messages = [saved]\<rparr>, ())"
    by (simp add: batch_messages delete_button_def save_button_def SimpleDialog_init_def
        saved_def deleted_def)
  have apart: "clicks [(delete_button, click_event), (save_button, click_event)] (SimpleDialog_init, ())
     = Inr (\<lparr>messages = [deleted, saved]\<rparr>, ())"
    by (simp add: clicks_messages delete_button_def save_button_def SimpleDialog_init_def
        saved_def deleted_def)
  from batched results apart batch_messages [of bes st s] show ?thesis by simp
qed






section \<open>Buttons that are not rendered\<close>

text \<open>
  C8, as the claim states it, fails: a descriptor whose \<^verbatim>\<open>onClick\<close> is a non-empty string
  and that has no \<^verbatim>\<open>href\<close> is rendered as a button, while the same descriptor without
  \<^verbatim>\<open>onClick\<close> is not: the value that cannot be called is not treated as absent.
\<close>

theorem uncallable_handler_is_rendered:
  "map_option element (render_button dead_button) = Some Primary
   \<and> map_option button_text (render_button dead_button) = Some ''Close''
   \<and> render_button (dead_button\<lparr>onClick := Value JUndefined\<rparr>) = None"
  by (simp add: render_button_def dead_button_def str_truthy_def)

text \<open>
  C8, amended. A descriptor whose \<^verbatim>\<open>onClick\<close> is not a function renders nothing exactly
  when that value and \<^verbatim>\<open>href\<close> are both falsy, so a descriptor with neither set is
  dropped, and one with a truthy value that cannot be called is rendered. A value that
  cannot be called is never called: activating the descriptor, and clicking the button
  rendered for it, leave the messages and the caller's state as they were and raise no
  error. No click on a rendered dialog raises an error.
\<close>

theorem uncallable_handler_is_never_called:
  "(render_button (b\<lparr>onClick := Value v, href := h\<rparr>) = None) = (\<not> truthy v \<and> \<not> str_truthy h)
   \<and> onButtonClicked (b\<lparr>onClick := Value v\<rparr>) e x = Inr x
   \<and> click (SimpleDialog_render a (p\<lparr>buttons := [b\<lparr>onClick := Value v\<rparr>]\<rparr>) st) 0 e x = Inr x
   \<and> click (SimpleDialog_render a p st) i e x \<noteq> Inl err"
proof -
  have "onButtonClicked c e x \<noteq> Inl err" for c :: "'a ISimpleDialogButtonProps"
    by (cases x; cases "onClick c") (simp_all add: onButtonClicked_cases)
  then have "click (SimpleDialog_render a p st) i e x \<noteq> Inl err"
    by (simp add: click_render)
  moreover have "onButtonClicked (b\<lparr>onClick := Value v\<rparr>) e x = Inr x"
    by (cases x) (simp add: onButtonClicked_cases)
  ultimately show ?thesis
    by (simp add: render_button_def click_render)
qed

section \<open>The final dialog configuration\<close>

lemma fold_update_map_of:
  "distinct (map fst ps) \<Longrightarrow>
   map_of (fold (\<lambda>(k, v). AList.update k v) ps acc) = map_of acc ++ map_of ps"
proof (induction ps arbitrary: acc)
  case Nil
  then show ?case by simp
next
  case (Cons kv ps)
  obtain k v where kv: "kv = (k, v)" by (cases kv)
  from Cons.prems kv have d: "distinct (map fst ps)" and nk: "k \<notin> fst ` set ps" by auto
  have none: "map_of ps k = None" using nk by (simp add: map_of_eq_None_iff)
  have "map_of (fold (\<lambda>(k, v). AList.update k v) (kv # ps) acc) =
        map_of (fold (\<lambda>(k, v). AList.update k v) ps (AList.update k v acc))"
    by (simp add: kv)
  also have "\<dots> = map_of (AList.update k v acc) ++ map_of ps"
    by (rule Cons.IH [OF d])
  also have "\<dots> = map_of acc ++ map_of (kv # ps)"
  proof (rule ext)
    fix x
    show "(map_of (AList.update k v acc) ++ map_of ps) x = (map_of acc ++ map_of (kv # ps)) x"
      using none
      by (cases "x = k") (simp_all add: kv update_conv' map_add_def split: option.splits)
  qed
  finally show ?case .
qed

lemma map_of_own_props:
  "map_of (own_props src) k = (case src of None \<Rightarrow> None | Some ps \<Rightarrow> map_of ps k)"
  by (cases src) (simp_all add: own_props_def map_of_clearjunk)

lemma distinct_own_props: "distinct (map fst (own_props src))"
  by (cases src) (simp_all add: own_props_def distinct_clearjunk)

lemma has_own_iff: "has_own src k = (map_of (own_props src) k \<noteq> None)"
  by (simp add: has_own_def map_of_eq_None_iff)

lemma map_of_spread:
  "map_of (spread src acc) k = (if has_own src k then Some (opt_get src k) else map_of acc k)"
proof -
  have "map_of (spread src acc) = map_of acc ++ map_of (own_props src)"
    unfolding spread_def by (rule fold_update_map_of [OF distinct_own_props])
  then show ?thesis
    by (cases src)
       (auto simp add: has_own_iff map_of_own_props opt_get_def map_add_def split: option.splits)
qed

lemma content_props_lookup:
  "map_of (content_props t dcp) k =
     (if k = ''title'' then Some (JStr (case t of None \<Rightarrow> [] | Some s \<Rightarrow> s))
      else if has_own dcp k then Some (opt_get dcp k)
      else if k = ''type'' then Some DialogType_normal
      else if k = ''showCloseButton'' then Some (JBool False)
      else None)"
  by (auto simp add: content_props_def update_conv' map_of_spread str_or_def str_truthy_def
      split: option.splits)

lemma modal_props_lookup:
  "map_of (modal_props b mp) k =
     (if has_own mp k then Some (opt_get mp k)
      else if k = ''isBlocking'' then Some (JBool True)
      else if k = ''styles''
      then Some (JObj b [(''main'', JObj (b + 1) [(''minWidth'', JNum 450), (''maxWidth'', JNum 450)])])
      else None)"
  by (simp add: modal_props_def map_of_spread modal_defaults_def)

lemma dialog_attrs_lookup:
  "map_of (dialog_attrs a p) k =
     (if k = ''modalProps'' then Some (JObj (a + 1) (modal_props (a + 2) (modalProps p)))
      else if k = ''dialogContentProps''
      then Some (JObj a (content_props (title p) (dialogContentProps p)))
      else if k = ''hidden'' then Some (JBool False)
      else if k = ''children'' then None
      else if has_own (dialogProps p) k then Some (opt_get (dialogProps p) k)
      else None)"
  by (simp add: dialog_attrs_def update_conv' delete_conv' map_of_spread)

text \<open>
  C6, as the claim states it, fails: an internal default can be unset. A caller whose
  \<^verbatim>\<open>modalProps\<close> carry a \<^verbatim>\<open>styles\<close> object of their own, here an empty one, gets that
  object as the final styles, without the minimal and maximal width 450; and a caller
  whose \<^verbatim>\<open>modalProps\<close> carry \<^verbatim>\<open>isBlocking\<close> with the value undefined gets undefined as
  the final value, not the blocking default.
\<close>

theorem defaults_can_be_unset:
  "final_config
     (SimpleDialog_render 0 (save_dialog\<lparr>modalProps := Some [(''styles'', JObj 5 [])]\<rparr>) SimpleDialog_init)
     ''modalProps'' ''styles'' = JObj 5 []
   \<and> get_prop (final_config (SimpleDialog_render 0 save_dialog SimpleDialog_init) ''modalProps'' ''styles'')
       ''main'' = JObj 3 [(''minWidth'', JNum 450), (''maxWidth'', JNum 450)]
   \<and> final_config
       (SimpleDialog_render 0 (save_dialog\<lparr>modalProps := Some [(''isBlocking'', JUndefined)]\<rparr>) SimpleDialog_init)
       ''modalProps'' ''isBlocking'' = JUndefined
   \<and> final_config (SimpleDialog_render 0 save_dialog SimpleDialog_init) ''modalProps'' ''isBlocking''
       = JBool True"
  by (simp add: final_config_def opt_get_def SimpleDialog_render_def dialog_attrs_lookup
      modal_props_lookup has_own_def own_props_def save_dialog_def)

text \<open>
  C6, amended. In the attributes of the \<^verbatim>\<open>Dialog\<close> that SimpleDialog renders, \<^verbatim>\<open>hidden\<close> is
  false whatever the caller passes, \<^verbatim>\<open>dialogContentProps\<close> and \<^verbatim>\<open>modalProps\<close> are the
  merged objects, and every other attribute but the children is the caller's
  \<^verbatim>\<open>dialogProps\<close> one. The merge
  is by top-level field. In the content object \<^verbatim>\<open>title\<close> is always the caller's title,
  the empty string when there is none, also when the caller's content overrides carry a
  title or other fields; every other field has the caller's value when the caller's
  object has that field, and otherwise the default: the normal dialog type and no close
  button. In the modal object every field has the caller's value when the caller's
  object has that field, and otherwise the default: blocking, and the styles with minimal
  and maximal width 450. So the caller's value stands exactly in the fields the caller's
  object has as own properties, whatever the value (undefined too, and the styles object
  as a whole), a default stands in every field the caller's object lacks, and each
  default field is a field of the final object.
\<close>

theorem SimpleDialog_final_configuration:
  "map_of (dialog (SimpleDialog_render a p st)) k =
     (if k = ''modalProps'' then Some (JObj (a + 1) (modal_props (a + 2) (modalProps p)))
      else if k = ''dialogContentProps''
      then Some (JObj a (content_props (title p) (dialogContentProps p)))
      else if k = ''hidden'' then Some (JBool False)
      else if k = ''children'' then None
      else if has_own (dialogProps p) k then Some (opt_get (dialogProps p) k)
      else None)
   \<and> map_of (content_props (title p) (dialogContentProps p)) k =
     (if k = ''title'' then Some (JStr (case title p of None \<Rightarrow> [] | Some s \<Rightarrow> s))
      else if has_own (dialogContentProps p) k then Some (opt_get (dialogContentProps p) k)
      else if k = ''type'' then Some DialogType_normal
      else if k = ''showCloseButton'' then Some (JBool False)
      else None)
   \<and> map_of (modal_props b (modalProps p)) k =
     (if has_own (modalProps p) k then Some (opt_get (modalProps p) k)
      else if k = ''isBlocking'' then Some (JBool True)
      else if k = ''styles''
      then Some (JObj b [(''main'', JObj (b + 1) [(''minWidth'', JNum 450), (''maxWidth'', JNum 450)])])
      else None)"
proof -
  have "dialog (SimpleDialog_render a p st) = dialog_attrs a p"
    by (simp add: SimpleDialog_render_def)
  then show ?thesis
    by (simp only: dialog_attrs_lookup content_props_lookup modal_props_lookup simp_thms)
qed

lemma final_config_modal:
  "final_config r ''modalProps'' k =
     get_prop (case map_of (dialog r) ''modalProps'' of Some v \<Rightarrow> v | None \<Rightarrow> JUndefined) k"
  by (simp add: final_config_def opt_get_def)

lemma variant_isBlocking:
  "map_of (modal_props b None) ''isBlocking'' = Some (JBool True)"
  by (simp add: modal_props_lookup has_own_def own_props_def)

text \<open>
  C3. The three wrappers give the SimpleDialog they render a title, a message and
  buttons only: the \<^verbatim>\<open>dialogProps\<close>, \<^verbatim>\<open>dialogContentProps\<close> and \<^verbatim>\<open>modalProps\<close> of the
  caller do not reach the final dialog configuration. Whatever the caller passes for
  them the rendered attributes are the same, and with \<^verbatim>\<open>modalProps = {isBlocking: false}\<close>
  each wrapper's dialog is blocking, where SimpleDialog given the same object is not.
\<close>

theorem wrappers_drop_base_configuration:
  "dialog (AlertDialog_render a (p\<lparr>dialogProps := dp, dialogContentProps := dcp, modalProps := mp\<rparr>) st)
     = dialog (AlertDialog_render a p st)
   \<and> dialog (ConfirmDialog_render a (q\<lparr>dialogProps := dp, dialogContentProps := dcp, modalProps := mp\<rparr>) st)
     = dialog (ConfirmDialog_render a q st)
   \<and> dialog (PromptDialog_render a (r\<lparr>dialogProps := dp, dialogContentProps := dcp, modalProps := mp\<rparr>) st)
     = dialog (PromptDialog_render a r st)
   \<and> final_config (AlertDialog_render a (p\<lparr>modalProps := Some [(''isBlocking'', JBool False)]\<rparr>) st)
        ''modalProps'' ''isBlocking'' = JBool True
   \<and> final_config (ConfirmDialog_render a (q\<lparr>modalProps := Some [(''isBlocking'', JBool False)]\<rparr>) st)
        ''modalProps'' ''isBlocking'' = JBool True
   \<and> final_config (PromptDialog_render a (r\<lparr>modalProps := Some [(''isBlocking'', JBool False)]\<rparr>) st)
        ''modalProps'' ''isBlocking'' = JBool True
   \<and> final_config (SimpleDialog_render a (s\<lparr>modalProps := Some [(''isBlocking'', JBool False)]\<rparr>) st)
        ''modalProps'' ''isBlocking'' = JBool False"
proof -
  have simple: "final_config (SimpleDialog_render a (s\<lparr>modalProps := Some [(''isBlocking'', JBool False)]\<rparr>) st)
        ''modalProps'' ''isBlocking'' = JBool False"
    by (simp add: final_config_modal SimpleDialog_render_def dialog_attrs_lookup modal_props_lookup
        has_own_def own_props_def opt_get_def)
  have alert: "final_config (AlertDialog_render a p' st) ''modalProps'' ''isBlocking'' = JBool True"
    for p' :: "'a IAlertDialogProps"
    by (simp add: final_config_modal AlertDialog_render_def SimpleDialog_render_def
        dialog_attrs_lookup variant_isBlocking)
  have confirm: "final_config (ConfirmDialog_render a q' st) ''modalProps'' ''isBlocking'' = JBool True"
    for q' :: "'b IConfirmDialogProps"
    by (simp add: final_config_modal ConfirmDialog_render_def SimpleDialog_render_def
        dialog_attrs_lookup variant_isBlocking)
  have prompt: "final_config (PromptDialog_render a r' st) ''modalProps'' ''isBlocking'' = JBool True"
    for r' :: "'c IPromptDialogProps"
    by (simp add: final_config_modal PromptDialog_render_def SimpleDialog_render_def
        dialog_attrs_lookup variant_isBlocking)
  have same: "dialog (AlertDialog_render a (p\<lparr>dialogProps := dp, dialogContentProps := dcp, modalProps := mp\<rparr>) st)
       = dialog (AlertDialog_render a p st)"
    "dialog (ConfirmDialog_render a (q\<lparr>dialogProps := dp, dialogContentProps := dcp, modalProps := mp\<rparr>) st)
       = dialog (ConfirmDialog_render a q st)"
    "dialog (PromptDialog_render a (r\<lparr>dialogProps := dp, dialogContentProps := dcp, modalProps := mp\<rparr>) st)
       = dialog (PromptDialog_render a r st)"
    by (simp_all add: AlertDialog_render_def ConfirmDialog_render_def PromptDialog_render_def
        SimpleDialog_render_def dialog_attrs_def)
  from same simple alert confirm prompt show ?thesis by simp
qed

section \<open>The wrappers' buttons\<close>

lemma AlertDialog_click:
  "click (AlertDialog_render a p st) 0 e (st, w) =
     Inr (if truthy (fst (IAlertDialogProps.onClose p [e] (user w)))
          then st\<lparr>messages := messages st @ [fst (IAlertDialogProps.onClose p [e] (user w))]\<rparr>
          else st,
          w\<lparr>calls := calls w @ [[e]], user := snd (IAlertDialogProps.onClose p [e] (user w))\<rparr>)"
  by (simp add: AlertDialog_render_def click_render onButtonClicked_cases invoke_def
      split: prod.splits)

lemma AlertDialog_footer:
  "map (map_option (\<lambda>b. (element b, button_text b))) (footer (AlertDialog_render a p st)) =
     [Some (Primary, str_or (buttonText p) ''Okay'')]"
  by (simp add: AlertDialog_render_def SimpleDialog_render_def render_button_def)

lemma ConfirmDialog_click:
  "click (ConfirmDialog_render a p st) i e (st, w) =
     Inr (st,
          if i = 0
          then w\<lparr>calls := calls w @ [[JBool False]],
                 user := snd (IConfirmDialogProps.onClose p [JBool False] (user w))\<rparr>
          else if i = 1
          then w\<lparr>calls := calls w @ [[JBool True]],
                 user := snd (IConfirmDialogProps.onClose p [JBool True] (user w))\<rparr>
          else w)"
proof -
  consider "i = 0" | "i = 1" | "2 \<le> i" by linarith
  then show ?thesis
    by cases
      (simp_all add: ConfirmDialog_render_def click_render onButtonClicked_cases invoke_def
        ConfirmDialog_onConfirm_def ConfirmDialog_onReject_def split: prod.splits)
qed

lemma PromptDialog_click:
  "click (PromptDialog_render a p st) i e (st, (this, w)) =
     Inr (st, (this,
          if i = 0
          then w\<lparr>calls := calls w @ [[JNull]],
                 user := snd (IPromptDialogProps.onClose p [JNull] (user w))\<rparr>
          else if i = 1
          then w\<lparr>calls := calls w @ [[str_val (pvalue this)]],
                 user := snd (IPromptDialogProps.onClose p [str_val (pvalue this)] (user w))\<rparr>
          else w))"
proof -
  consider "i = 0" | "i = 1" | "2 \<le> i" by linarith
  then show ?thesis
    by cases
      (simp_all add: PromptDialog_render_def click_render onButtonClicked_cases invoke_def
        PromptDialog_onConfirm_def PromptDialog_onReject_def split: prod.splits)
qed

text \<open>
  C7. ConfirmDialog renders exactly two buttons, the reject button first, a
  \<^verbatim>\<open>DefaultButton\<close> labelled \<^verbatim>\<open>rejectButtonText || "No"\<close>, then the confirm button, a
  \<^verbatim>\<open>PrimaryButton\<close> labelled \<^verbatim>\<open>confirmButtonText || "Yes"\<close>: the text given, or the default
  when none is given. A click on the confirm button calls \<^verbatim>\<open>onClose\<close> once, with
  \<open>true\<close> alone; a click on the reject button calls it once, with \<open>false\<close> alone;
  neither adds a message. The label texts do not enter what a click does.
\<close>

theorem ConfirmDialog_buttons_and_results:
  "map (map_option (\<lambda>b. (element b, button_text b))) (footer (ConfirmDialog_render a p st)) =
     [Some (Default, str_or (IConfirmDialogProps.rejectButtonText p) ''No''),
      Some (Primary, str_or (IConfirmDialogProps.confirmButtonText p) ''Yes'')]
   \<and> str_or None d = d \<and> str_or (Some (c # cs)) d = c # cs
   \<and> click (ConfirmDialog_render a p st) 1 e (st, w) =
       Inr (st, w\<lparr>calls := calls w @ [[JBool True]],
                   user := snd (IConfirmDialogProps.onClose p [JBool True] (user w))\<rparr>)
   \<and> click (ConfirmDialog_render a p st) 0 e (st, w) =
       Inr (st, w\<lparr>calls := calls w @ [[JBool False]],
                   user := snd (IConfirmDialogProps.onClose p [JBool False] (user w))\<rparr>)
   \<and> click (ConfirmDialog_render a
              (p\<lparr>IConfirmDialogProps.confirmButtonText := ct,
                  IConfirmDialogProps.rejectButtonText := rt\<rparr>) st) i e (st, w) =
       click (ConfirmDialog_render a p st) i e (st, w)"
proof -
  have buttons: "map (map_option (\<lambda>b. (element b, button_text b))) (footer (ConfirmDialog_render a p st)) =
     [Some (Default, str_or (IConfirmDialogProps.rejectButtonText p) ''No''),
      Some (Primary, str_or (IConfirmDialogProps.confirmButtonText p) ''Yes'')]"
    by (simp add: ConfirmDialog_render_def SimpleDialog_render_def render_button_def)
  have labels: "str_or None d = d" "str_or (Some (c # cs)) d = c # cs"
    by (simp_all add: str_or_def str_truthy_def)
  have clicks: "click (ConfirmDialog_render a p st) 1 e (st, w) =
       Inr (st, w\<lparr>calls := calls w @ [[JBool True]],
                   user := snd (IConfirmDialogProps.onClose p [JBool True] (user w))\<rparr>)"
    "click (ConfirmDialog_render a p st) 0 e (st, w) =
       Inr (st, w\<lparr>calls := calls w @ [[JBool False]],
                   user := snd (IConfirmDialogProps.onClose p [JBool False] (user w))\<rparr>)"
    by (simp_all add: ConfirmDialog_click)
  have cosmetic: "click (ConfirmDialog_render a
              (p\<lparr>IConfirmDialogProps.confirmButtonText := ct,
                  IConfirmDialogProps.rejectButtonText := rt\<rparr>) st) i e (st, w) =
       click (ConfirmDialog_render a p st) i e (st, w)"
    by (simp add: ConfirmDialog_click)
  from buttons labels clicks cosmetic show ?thesis by simp
qed

text \<open>
  C2. AlertDialog renders exactly one button, a \<^verbatim>\<open>PrimaryButton\<close> labelled
  \<^verbatim>\<open>buttonText || "Okay"\<close>, and a click on it calls \<^verbatim>\<open>onClose\<close> exactly once. The call is
  not without arguments: \<^verbatim>\<open>onClose\<close> is the button's click handler and receives the click
  event.
\<close>

theorem AlertDialog_onClose_receives_the_event:
  "map (map_option (\<lambda>b. (element b, button_text b))) (footer (AlertDialog_render a p st)) =
     [Some (Primary, str_or (buttonText p) ''Okay'')]
   \<and> str_or None ''Okay'' = ''Okay'' \<and> str_or (Some (c # cs)) ''Okay'' = c # cs
   \<and> map_sum id (calls \<circ> snd) (click (AlertDialog_render a p st) 0 e (st, w)) = Inr (calls w @ [[e]])
   \<and> calls w @ [[e]] \<noteq> calls w @ [[]]"
  by (simp add: AlertDialog_footer AlertDialog_click str_or_def str_truthy_def)




section \<open>The life of a PromptDialog\<close>

lemma step_Click:
  "step a (Click i e) m =
     Inr (m\<lparr>m_world :=
            if i = 0
            then (m_world m)\<lparr>calls := calls (m_world m) @ [[JNull]],
                   user := snd (IPromptDialogProps.onClose (m_props m) [JNull] (user (m_world m)))\<rparr>
            else if i = 1
            then (m_world m)\<lparr>calls := calls (m_world m) @ [[str_val (pvalue (m_this m))]],
                   user := snd (IPromptDialogProps.onClose (m_props m) [str_val (pvalue (m_this m))]
                                  (user (m_world m)))\<rparr>
            else m_world m\<rparr>)"
  by (simp add: PromptDialog_click)

lemma run_append:
  "run a (xs @ ys) m = (case run a xs m of Inl err \<Rightarrow> Inl err | Inr m' \<Rightarrow> run a ys m')"
  by (induction xs arbitrary: m) (simp_all split: sum.splits)

lemma run_changes:
  "run a (map Change vs) m = Inr (m\<lparr>m_this := fold onValueChanged vs (m_this m)\<rparr>)"
  by (induction vs arbitrary: m) simp_all

lemma pvalue_fold:
  "pvalue (fold onValueChanged vs this) = (if vs = [] then pvalue this else last vs)"
  by (induction vs arbitrary: this) (simp_all add: onValueChanged_def)

lemma mount_fields:
  "m_props (mount p w) = p"
  "m_this (mount p w) = \<lparr>pvalue = Some []\<rparr>"
  "m_dialog (mount p w) = SimpleDialog_init"
  "calls (m_world (mount p w)) = calls w"
  "user (m_world (mount p w)) = user w"
  "console (m_world (mount p w)) =
     console w @ (if messageAsLabel p = Some True \<and> truthy (opt_get (textFieldProps p) ''label'')
                  then [label_warning] else [])"
  by (simp_all add: mount_def PromptDialog_constructor_def console_warn_def)

lemma step_console:
  "\<exists>m'. step a ev m = Inr m' \<and> console (m_world m') = console (m_world m)"
proof (cases ev)
  case (Click i e)
  then show ?thesis by (simp add: step_Click del: step.simps(3))
qed simp_all

lemma run_console:
  "\<exists>m'. run a evs m = Inr m' \<and> console (m_world m') = console (m_world m)"
proof (induction evs arbitrary: m)
  case Nil
  show ?case by simp
next
  case (Cons ev evs)
  from step_console [of a ev m] obtain m1
    where s: "step a ev m = Inr m1" and c: "console (m_world m1) = console (m_world m)"
    by blast
  from Cons.IH [of m1] obtain m2
    where r: "run a evs m1 = Inr m2" and c': "console (m_world m2) = console (m_world m1)"
    by blast
  from s r c c' show ?case by simp
qed

text \<open>
  C1. After any changes of the text field, a click on the confirm button calls
  \<^verbatim>\<open>onClose\<close> exactly once, with the uncommitted value alone: the empty string when there
  was no change, and otherwise what the last change delivered. A click on the reject
  button calls \<^verbatim>\<open>onClose\<close> exactly once and drops what was typed, but the argument it
  passes is null, which is not undefined.
\<close>

theorem PromptDialog_reject_passes_null:
  "map_sum id (calls \<circ> m_world) (run a (map Change vs @ [Click 1 e]) (mount p w)) =
     Inr (calls w @ [[str_val (if vs = [] then Some [] else last vs)]])
   \<and> map_sum id (calls \<circ> m_world) (run a (map Change vs @ [Click 0 e]) (mount p w)) =
     Inr (calls w @ [[JNull]])
   \<and> JNull \<noteq> JUndefined"
proof -
  let ?m = "(mount p w)\<lparr>m_this := fold onValueChanged vs (m_this (mount p w))\<rparr>"
  have typed: "pvalue (m_this ?m) = (if vs = [] then Some [] else last vs)"
    by (simp add: pvalue_fold mount_fields)
  have world: "calls (m_world ?m) = calls w"
    by (simp add: mount_fields)
  have run_click: "run a (map Change vs @ [Click i e]) (mount p w) = step a (Click i e) ?m" for i
    by (simp add: run_append run_changes del: step.simps(3) split: sum.splits)
  have confirm: "map_sum id (calls \<circ> m_world) (run a (map Change vs @ [Click 1 e]) (mount p w)) =
     Inr (calls w @ [[str_val (if vs = [] then Some [] else last vs)]])"
    unfolding run_click step_Click using typed world by simp
  have reject: "map_sum id (calls \<circ> m_world) (run a (map Change vs @ [Click 0 e]) (mount p w)) =
     Inr (calls w @ [[JNull]])"
    unfolding run_click step_Click using world by simp
  from confirm reject show ?thesis by simp
qed

lemma textField_label:
  "map_of (textField_attrs p) ''label'' =
     (if has_own (textFieldProps p) ''label'' then Some (opt_get (textFieldProps p) ''label'')
      else None)"
  by (simp add: textField_attrs_def delete_conv' map_of_spread)

text \<open>
  C9, as the claim states it, fails: with \<^verbatim>\<open>messageAsLabel\<close> set and a label supplied for
  the text field that is the empty string, the message and the text field are wrapped
  in a \<^verbatim>\<open>Label\<close> and the constructor writes no warning.
\<close>

theorem empty_label_is_wrapped_without_warning:
  "opt_get (textFieldProps ask_name) ''label'' = JStr []
   \<and> messageAsLabel ask_name = Some True
   \<and> renderMessage ask_name =
       Label (Fragment [Content (JStr ''What is your name?''), TextField [(''label'', JStr [])]])
   \<and> console (snd (PromptDialog_constructor ask_name quiet)) = []"
  by (simp add: ask_name_def quiet_def renderMessage_def textField_attrs_def spread_def
      own_props_def opt_get_def PromptDialog_constructor_def)

text \<open>
  C9, amended. When \<^verbatim>\<open>messageAsLabel\<close> is set and the text field has no truthy label of
  its own (none, or a falsy one such as the empty string), the message and the text
  field are rendered together inside one \<^verbatim>\<open>Label\<close>; otherwise they are rendered without
  it, and the text field carries the label the caller gave it. The constructor writes
  the warning, once, exactly when \<^verbatim>\<open>messageAsLabel\<close> is set and the text field has a
  truthy label. Nothing after the constructor writes to the console: whatever follows,
  renders with other props included, the console holds what it held after the
  constructor, and no event raises an error.
\<close>

theorem label_composition_and_warning:
  "renderMessage p =
     (if messageAsLabel p = Some True \<and> \<not> truthy (opt_get (textFieldProps p) ''label'')
      then Label (Fragment [message p, TextField (textField_attrs p)])
      else Fragment [message p, TextField (textField_attrs p)])
   \<and> map_of (textField_attrs p) ''label'' =
     (if has_own (textFieldProps p) ''label'' then Some (opt_get (textFieldProps p) ''label'')
      else None)
   \<and> console (snd (PromptDialog_constructor p w)) =
     console w @ (if messageAsLabel p = Some True \<and> truthy (opt_get (textFieldProps p) ''label'')
                  then [label_warning] else [])
   \<and> map_sum id (console \<circ> m_world) (run a evs (mount p w)) =
     Inr (console w @ (if messageAsLabel p = Some True \<and> truthy (opt_get (textFieldProps p) ''label'')
                       then [label_warning] else []))"
proof -
  have shape: "renderMessage p =
     (if messageAsLabel p = Some True \<and> \<not> truthy (opt_get (textFieldProps p) ''label'')
      then Label (Fragment [message p, TextField (textField_attrs p)])
      else Fragment [message p, TextField (textField_attrs p)])"
    by (simp add: renderMessage_def Let_def)
  have once: "console (snd (PromptDialog_constructor p w)) =
     console w @ (if messageAsLabel p = Some True \<and> truthy (opt_get (textFieldProps p) ''label'')
                  then [label_warning] else [])"
    by (simp add: PromptDialog_constructor_def console_warn_def)
  from run_console [of a evs "mount p w"] obtain m'
    where r: "run a evs (mount p w) = Inr m'"
      and c: "console (m_world m') = console (m_world (mount p w))"
    by blast
  have later: "map_sum id (console \<circ> m_world) (run a evs (mount p w)) =
     Inr (console w @ (if messageAsLabel p = Some True \<and> truthy (opt_get (textFieldProps p) ''label'')
                       then [label_warning] else []))"
    by (simp only: r c mount_fields map_sum.simps comp_apply)
  from shape textField_label [of p] once later show ?thesis by blast
qed

end
